theory Spec2Isabelle
  imports Main "HOL-Library.Extended_Nat" "HOL-Library.Sublist"
begin

section \<open>Values handed to the validators\<close>

text \<open>
  \<^verbatim>\<open>isNpmSnapPackageJson\<close> and \<^verbatim>\<open>assertIsNpmSnapPackageJson\<close> take a value of type
  \<^verbatim>\<open>unknown\<close>: the parsed content of a \<^verbatim>\<open>package.json\<close>. The model has the JSON values,
  \<^verbatim>\<open>undefined\<close>, which is what reading an absent property gives, and \<open>JOther\<close> for a
  primitive of another type (a bigint). An object is plain data: the list of its own
  enumerable properties in order, none of them callable; reading a key takes its first
  binding. A string is a list of 8-bit characters. The payload of a number is never
  inspected by this module.
\<close>

datatype jsvalue =
    JUndefined
  | JNull
  | JBool bool
  | JNumber int
  | JString string
  | JArray "jsvalue list"
  | JObject "(string \<times> jsvalue) list"
  | JOther

text \<open>superstruct's \<^verbatim>\<open>isObject(x)\<close>: \<^verbatim>\<open>typeof x === 'object' && x != null\<close>; arrays pass.\<close>

fun isObject :: "jsvalue \<Rightarrow> bool" where
  "isObject (JObject kvs) = True"
| "isObject (JArray xs) = True"
| "isObject v = False"

text \<open>The decimal spelling of an array index, as \<^verbatim>\<open>Object.keys\<close> lists it.\<close>

fun decimal :: "nat \<Rightarrow> string" where
  "decimal n =
     (if n < 10 then [char_of (48 + n)]
      else decimal (n div 10) @ [char_of (48 + n mod 10)])"

text \<open>\<^verbatim>\<open>Object.keys(value)\<close> for a value that passed \<^verbatim>\<open>isObject\<close>.\<close>

fun keys_of :: "jsvalue \<Rightarrow> string list" where
  "keys_of (JObject kvs) = remdups (map fst kvs)"
| "keys_of (JArray xs) = map decimal [0..<length xs]"
| "keys_of v = []"

text \<open>
  \<^verbatim>\<open>value[key]\<close> for a value that passed \<^verbatim>\<open>isObject\<close>. The module reads only the keys of
  its schemas and the value's own keys, so inherited properties are left out.
\<close>

fun get_prop :: "jsvalue \<Rightarrow> string \<Rightarrow> jsvalue" where
  "get_prop (JObject kvs) k = (case map_of kvs k of Some v \<Rightarrow> v | None \<Rightarrow> JUndefined)"
| "get_prop (JArray xs) k =
     (case map_of (zip (map decimal [0..<length xs]) xs) k of
        Some v \<Rightarrow> v
      | None \<Rightarrow> if k = ''length'' then JNumber (int (length xs)) else JUndefined)"
| "get_prop v k = JUndefined"

text \<open>
  Whether the conversion of a value to a string, \<^verbatim>\<open>`${value}`\<close>, raises a
  \<^verbatim>\<open>TypeError\<close>. A primitive converts. An object converts through its \<^verbatim>\<open>toString\<close>
  method: the inherited one answers \<^verbatim>\<open>[object Object]\<close>, but an own property
  \<^verbatim>\<open>toString\<close> hides it, is not callable in plain data, and the inherited \<^verbatim>\<open>valueOf\<close>
  then returns the object itself, so the conversion raises. An array joins the
  conversions of its elements.
\<close>

fun to_string_raises :: "jsvalue \<Rightarrow> bool" where
  "to_string_raises (JObject kvs) = (''toString'' \<in> set (map fst kvs))"
| "to_string_raises (JArray xs) = list_ex to_string_raises xs"
| "to_string_raises v = False"

text \<open>
  superstruct's \<^verbatim>\<open>print(value)\<close>, used in the messages of failures:
  \<^verbatim>\<open>JSON.stringify(value)\<close> for a string and \<^verbatim>\<open>`${value}`\<close> for any other value.
\<close>

definition print_raises :: "jsvalue \<Rightarrow> bool" where
  "print_raises v = (case v of JString s \<Rightarrow> False | _ \<Rightarrow> to_string_raises v)"


section \<open>Regular expressions\<close>

text \<open>
  The pattern of \<^verbatim>\<open>NameStruct\<close> uses anchors, literal characters, character classes
  of ranges and single characters, a non-capturing group, and the greedy quantifiers
  \<^verbatim>\<open>?\<close> and \<^verbatim>\<open>*\<close>.
\<close>

datatype class_item = ClassRange char char | ClassChar char

datatype regex =
    Bol
  | Eol
  | Chr char
  | Class "class_item list"
  | Seq regex regex
  | Opt regex
  | Star regex

fun in_item :: "char \<Rightarrow> class_item \<Rightarrow> bool" where
  "in_item c (ClassRange lo hi) = ((of_char lo :: nat) \<le> of_char c \<and> (of_char c :: nat) \<le> of_char hi)"
| "in_item c (ClassChar x) = (c = x)"

definition in_class :: "class_item list \<Rightarrow> char \<Rightarrow> bool" where
  "in_class items c = list_ex (in_item c) items"

text \<open>
  The backtracking matcher of ECMAScript on a state \<open>(endIndex, rest of the input)\<close>:
  the states in which the pattern can finish, in the order in which backtracking tries
  them. \<^verbatim>\<open>^\<close> holds at index 0 and \<^verbatim>\<open>$\<close> at the end of the input (no \<^verbatim>\<open>m\<close> flag). A
  quantifier tries one more round first, and drops a round that consumed nothing.
\<close>

fun matcher :: "regex \<Rightarrow> nat \<times> string \<Rightarrow> (nat \<times> string) list" where
  "matcher Bol (i, s) = (if i = 0 then [(i, s)] else [])"
| "matcher Eol (i, s) = (if s = [] then [(i, s)] else [])"
| "matcher (Chr c) (i, s) =
     (case s of [] \<Rightarrow> [] | x # xs \<Rightarrow> if x = c then [(Suc i, xs)] else [])"
| "matcher (Class items) (i, s) =
     (case s of [] \<Rightarrow> [] | x # xs \<Rightarrow> if in_class items x then [(Suc i, xs)] else [])"
| "matcher (Seq a b) (i, s) = concat (map (matcher b) (matcher a (i, s)))"
| "matcher (Opt a) (i, s) =
     filter (\<lambda>y. length (snd y) < length s) (matcher a (i, s)) @ [(i, s)]"
| "matcher (Star a) (i, s) =
     concat (map (\<lambda>y. if length (snd y) < length s then matcher (Star a) y else [])
               (matcher a (i, s))) @ [(i, s)]"

text \<open>
  A \<^verbatim>\<open>RegExp\<close> object: its pattern, its \<^verbatim>\<open>g\<close>, \<^verbatim>\<open>y\<close> and \<^verbatim>\<open>u\<close> flags. Its mutable
  \<^verbatim>\<open>lastIndex\<close> is the state passed through \<open>RegExp_test\<close>.
\<close>

record RegExp =
  source :: regex
  global :: bool
  sticky :: bool
  unicode :: bool

text \<open>
  The loop of \<^verbatim>\<open>RegExpBuiltinExec\<close>: try the pattern at index \<open>i\<close>, then at the next
  index unless the expression is sticky; the result is the end index of the first match.
\<close>

function search :: "regex \<Rightarrow> bool \<Rightarrow> string \<Rightarrow> nat \<Rightarrow> nat option" where
  "search r y s i =
     (if length s < i then None
      else case matcher r (i, drop i s) of
             (e, rest) # others \<Rightarrow> Some e
           | [] \<Rightarrow> if y then None else search r y s (Suc i))"
  by pat_completeness auto
termination
  by (relation "measure (\<lambda>(r, y, s, i). Suc (length s) - i)") auto

text \<open>
  \<^verbatim>\<open>RegExp.prototype.test\<close>: whether a match exists, and the new \<^verbatim>\<open>lastIndex\<close>. Only a
  global or sticky expression reads and writes \<^verbatim>\<open>lastIndex\<close>.
\<close>

definition RegExp_test :: "RegExp \<Rightarrow> string \<Rightarrow> nat \<Rightarrow> bool \<times> nat" where
  "RegExp_test R S lastIndex =
     (let stateful = (global R \<or> sticky R);
          start = (if stateful then lastIndex else 0)
      in case search (source R) (sticky R) S start of
           None \<Rightarrow> (False, if stateful then 0 else lastIndex)
         | Some e \<Rightarrow> (True, if stateful then e else lastIndex))"


section \<open>Structs and their validation\<close>

text \<open>
  The module builds its schemas from the combinators of the superstruct library. A struct
  has a type name, a validator, the entries it descends into, and a refiner. The
  combinators used here are \<^verbatim>\<open>string()\<close> (\<open>StringS\<close>), \<^verbatim>\<open>optional\<close> (\<open>OptionalS\<close>),
  \<^verbatim>\<open>type\<close> (\<open>TypeS\<close>), \<^verbatim>\<open>object\<close> (\<open>ObjectS\<close>) with the \<^verbatim>\<open>never()\<close> struct it puts on
  unknown keys (\<open>NeverS\<close>), and \<^verbatim>\<open>refine\<close>, \<^verbatim>\<open>pattern\<close> and \<^verbatim>\<open>size\<close>, which all add a
  named refiner to a struct (\<open>RefineS\<close>).
\<close>

datatype failure =
  Failure (failure_type: string) (failure_refinement: "string option") (failure_path: "string list")

datatype error = TypeError | AssertionError string

datatype outcome = Valid | Invalid failure | Threw error

text \<open>
  The three refiners of the module. Each refines \<^verbatim>\<open>string()\<close> and is typed on strings:
  a callback of the module, \<^verbatim>\<open>regexp.test(value)\<close>, and the length bounds of \<^verbatim>\<open>size\<close>
  (the upper bound may be \<^verbatim>\<open>Infinity\<close>).
\<close>

datatype refiner =
    Custom "string \<Rightarrow> bool"
  | PatternTest RegExp
  | SizeBetween nat enat

datatype Struct =
    StringS
  | NeverS
  | RefineS Struct string refiner
  | OptionalS Struct
  | TypeS "(string \<times> Struct) list"
  | ObjectS "(string \<times> Struct) list"

definition refine :: "Struct \<Rightarrow> string \<Rightarrow> (string \<Rightarrow> bool) \<Rightarrow> Struct" where
  "refine struct name f = RefineS struct name (Custom f)"

definition pattern :: "Struct \<Rightarrow> RegExp \<Rightarrow> Struct" where
  "pattern struct regexp = RefineS struct ''pattern'' (PatternTest regexp)"

definition size_struct :: "Struct \<Rightarrow> nat \<Rightarrow> enat \<Rightarrow> Struct" where
  "size_struct struct lo hi = RefineS struct ''size'' (SizeBetween lo hi)"

text \<open>The \<^verbatim>\<open>type\<close> field; \<^verbatim>\<open>refine\<close> and \<^verbatim>\<open>optional\<close> copy it from the struct they wrap.\<close>

fun type_of :: "Struct \<Rightarrow> string" where
  "type_of StringS = ''string''"
| "type_of NeverS = ''never''"
| "type_of (RefineS s name r) = type_of s"
| "type_of (OptionalS s) = type_of s"
| "type_of (TypeS schema) = ''type''"
| "type_of (ObjectS schema) = ''object''"

text \<open>
  The message of a failed type test is built at once, with \<^verbatim>\<open>print(value)\<close>: by the
  validator itself for \<^verbatim>\<open>string()\<close>, \<^verbatim>\<open>type\<close> and \<^verbatim>\<open>object\<close>
  (\<^verbatim>\<open>`Expected a string, but received: ${print(value)}`\<close>), and by \<^verbatim>\<open>toFailure\<close> for
  \<^verbatim>\<open>never()\<close>, whose validator returns \<^verbatim>\<open>false\<close>. So a failed test raises where the
  value does not print.
\<close>

definition failed_test :: "jsvalue \<Rightarrow> error + bool" where
  "failed_test v = (if print_raises v then Inl TypeError else Inr False)"

text \<open>
  The \<^verbatim>\<open>validator\<close> field: whether the value has the struct's type, or the error
  raised while the failure is built.
\<close>

fun validator :: "Struct \<Rightarrow> jsvalue \<Rightarrow> error + bool" where
  "validator StringS v = (case v of JString s \<Rightarrow> Inr True | _ \<Rightarrow> failed_test v)"
| "validator NeverS v = failed_test v"
| "validator (RefineS s name r) v = validator s v"
| "validator (OptionalS s) v = (if v = JUndefined then Inr True else validator s v)"
| "validator (TypeS schema) v = (if isObject v then Inr True else failed_test v)"
| "validator (ObjectS schema) v = (if isObject v then Inr True else failed_test v)"

text \<open>
  The \<^verbatim>\<open>entries\<close> field: key, value and struct of each property to descend into.
  \<^verbatim>\<open>type\<close> yields the keys of its schema; \<^verbatim>\<open>object\<close> yields them and then every other
  key of the value with the \<^verbatim>\<open>never()\<close> struct.
\<close>

fun entries :: "Struct \<Rightarrow> jsvalue \<Rightarrow> (string \<times> jsvalue \<times> Struct) list" where
  "entries StringS v = []"
| "entries NeverS v = []"
| "entries (RefineS s name r) v = entries s v"
| "entries (OptionalS s) v = entries s v"
| "entries (TypeS schema) v =
     (if isObject v then map (\<lambda>(k, s). (k, get_prop v k, s)) schema else [])"
| "entries (ObjectS schema) v =
     (if isObject v then
        map (\<lambda>(k, s). (k, get_prop v k, s)) schema @
        map (\<lambda>k. (k, get_prop v k, NeverS)) (filter (\<lambda>k. k \<notin> set (map fst schema)) (keys_of v))
      else [])"

text \<open>
  One refiner on one value. A refiner receives a string; a call with any other value
  (where JavaScript would coerce the value or raise on reading \<^verbatim>\<open>length\<close>) is recorded as
  an error, so that a theorem can say that no such call is made. The message of a failed
  refinement prints a string or a length, which never raises. The natural number passed
  through validation is the \<^verbatim>\<open>lastIndex\<close> of the one \<^verbatim>\<open>RegExp\<close> object of the module.
\<close>

fun apply_refiner :: "refiner \<Rightarrow> jsvalue \<Rightarrow> nat \<Rightarrow> (error + bool) \<times> nat" where
  "apply_refiner (Custom f) (JString s) st = (Inr (f s), st)"
| "apply_refiner (PatternTest regexp) (JString s) st =
     (case RegExp_test regexp s st of (b, st') \<Rightarrow> (Inr b, st'))"
| "apply_refiner (SizeBetween lo hi) (JString s) st =
     (Inr (lo \<le> length s \<and> enat (length s) \<le> hi), st)"
| "apply_refiner r v st = (Inl TypeError, st)"

text \<open>
  The \<^verbatim>\<open>refiner\<close> field, up to its first failure: \<^verbatim>\<open>refine\<close> runs the refiner of the
  wrapped struct and then its own; \<^verbatim>\<open>optional\<close> skips it on \<^verbatim>\<open>undefined\<close>.
\<close>

fun struct_refiner :: "Struct \<Rightarrow> jsvalue \<Rightarrow> string list \<Rightarrow> nat \<Rightarrow> outcome \<times> nat" where
  "struct_refiner (RefineS s name r) v path st =
     (case struct_refiner s v path st of
        (Valid, st') \<Rightarrow>
          (case apply_refiner r v st' of
             (Inr True, st'') \<Rightarrow> (Valid, st'')
           | (Inr False, st'') \<Rightarrow> (Invalid (Failure (type_of s) (Some name) path), st'')
           | (Inl e, st'') \<Rightarrow> (Threw e, st''))
      | other \<Rightarrow> other)"
| "struct_refiner (OptionalS s) v path st =
     (if v = JUndefined then (Valid, st) else struct_refiner s v path st)"
| "struct_refiner s v path st = (Valid, st)"

text \<open>
  Every entry of a struct carries a struct smaller than it; this is why validation ends.
\<close>

fun entries_bound :: "(string \<times> jsvalue \<times> Struct) list \<Rightarrow> nat" where
  "entries_bound [] = 0"
| "entries_bound ((k, v, s) # es) = max (2 * size s + 2) (entries_bound es)"

lemma schema_size:
  "(k, s) \<in> set schema \<Longrightarrow> size s < Suc (size_list (size_prod (\<lambda>_. 0) size) schema)"
  by (induction schema) auto

lemma entries_smaller: "e \<in> set (entries s v) \<Longrightarrow> size (snd (snd e)) < size s"
  by (induction s) (auto simp: less_Suc_eq split: if_splits dest: schema_size)

lemma entries_bound_le:
  "\<forall>e \<in> set es. size (snd (snd e)) < n \<Longrightarrow> entries_bound es \<le> 2 * n"
  by (induction es) auto

lemma entries_bound_entries: "entries_bound (entries s v) < 2 * size s + 1"
  using entries_bound_le [of "entries s v" "size s"] entries_smaller [of _ s v]
  by (simp add: less_Suc_eq_le)

text \<open>
  superstruct's \<^verbatim>\<open>run\<close>, as far as \<^verbatim>\<open>validate\<close> reads it: \<^verbatim>\<open>validate\<close> takes the first
  tuple the generator yields, so the run ends at the first failure. The validator comes
  first, then the entries in order, then the refiner. An error raised on the way ends the
  run as well: nothing in \<^verbatim>\<open>run\<close>, \<^verbatim>\<open>validate\<close> or \<^verbatim>\<open>is\<close> catches it.
\<close>

function run :: "Struct \<Rightarrow> jsvalue \<Rightarrow> string list \<Rightarrow> nat \<Rightarrow> outcome \<times> nat"
  and run_entries :: "(string \<times> jsvalue \<times> Struct) list \<Rightarrow> string list \<Rightarrow> nat \<Rightarrow> outcome \<times> nat"
where
  "run struct v path st =
     (case validator struct v of
        Inl e \<Rightarrow> (Threw e, st)
      | Inr False \<Rightarrow> (Invalid (Failure (type_of struct) None path), st)
      | Inr True \<Rightarrow>
          (case run_entries (entries struct v) path st of
             (Valid, st') \<Rightarrow> struct_refiner struct v path st'
           | other \<Rightarrow> other))"
| "run_entries [] path st = (Valid, st)"
| "run_entries ((k, v, s) # es) path st =
     (case run s v (path @ [k]) st of
        (Valid, st') \<Rightarrow> run_entries es path st'
      | other \<Rightarrow> other)"
  by pat_completeness auto
termination run
proof (relation
    "(\<lambda>x. case x of Inl (s, v, p, st) \<Rightarrow> 2 * size s + 1 | Inr (es, p, st) \<Rightarrow> entries_bound es)
       <*mlex*> measure (\<lambda>x. case x of Inl a \<Rightarrow> 0 | Inr (es, p, st) \<Rightarrow> length es)",
    goal_cases)
  case 1
  show ?case by (simp add: wf_mlex)
next
  case (2 struct v path st)
  show ?case using entries_bound_entries [of struct v] by (intro mlex_less) simp
next
  case 3
  show ?case by (rule mlex_less) simp
next
  case 4
  show ?case by (rule mlex_leq) simp_all
qed

text \<open>
  \<^verbatim>\<open>validate(value, struct)\<close> runs the struct from the empty path; \<^verbatim>\<open>is\<close> answers
  whether the first tuple is free of a failure. An exception raised by a refiner passes
  through \<^verbatim>\<open>is\<close>.
\<close>

definition validate :: "jsvalue \<Rightarrow> Struct \<Rightarrow> nat \<Rightarrow> outcome \<times> nat" where
  "validate v struct st = run struct v [] st"

definition is_struct :: "jsvalue \<Rightarrow> Struct \<Rightarrow> nat \<Rightarrow> (error + bool) \<times> nat" where
  "is_struct v struct st =
     (case validate v struct st of
        (Valid, st') \<Rightarrow> (Inr True, st')
      | (Invalid f, st') \<Rightarrow> (Inr False, st')
      | (Threw e, st') \<Rightarrow> (Inl e, st'))"

text \<open>
  \<^verbatim>\<open>assertStruct(value, struct, errorPrefix)\<close> of \<^verbatim>\<open>@metamask/utils\<close> calls superstruct's
  \<^verbatim>\<open>assert\<close>, which throws the failure of \<^verbatim>\<open>validate\<close>, and rethrows whatever it catches
  as an assertion error with the message
  \<^verbatim>\<open>`${errorPrefix}: ${getErrorMessage(error)}.`\<close> The text of what was caught is the
  library's; it is the parameter \<open>getErrorMessage\<close>.
\<close>

definition assertStruct ::
  "(outcome \<Rightarrow> string) \<Rightarrow> jsvalue \<Rightarrow> Struct \<Rightarrow> string \<Rightarrow> nat \<Rightarrow> (error + unit) \<times> nat" where
  "assertStruct getErrorMessage v struct errorPrefix st =
     (case validate v struct st of
        (Valid, st') \<Rightarrow> (Inr (), st')
      | (caught, st') \<Rightarrow>
          (Inl (AssertionError (errorPrefix @ '': '' @ getErrorMessage caught @ ''.'')), st'))"


section \<open>The module \<^verbatim>\<open>types.ts\<close>\<close>

datatype NpmSnapFileNames = PackageJson | Manifest

text \<open>The string value of each member of the enum.\<close>

fun NpmSnapFileNames_value :: "NpmSnapFileNames \<Rightarrow> string" where
  "NpmSnapFileNames_value PackageJson = ''package.json''"
| "NpmSnapFileNames_value Manifest = ''snap.manifest.json''"

datatype SnapIdPrefixes = npm | local

fun SnapIdPrefixes_value :: "SnapIdPrefixes \<Rightarrow> string" where
  "SnapIdPrefixes_value npm = ''npm:''"
| "SnapIdPrefixes_value local = ''local:''"

text \<open>
  \<^verbatim>\<open>VersionStruct = refine(string(), 'Version', (value) => validSemver(value) !== null)\<close>.
  \<^verbatim>\<open>validSemver\<close> is the function \<^verbatim>\<open>valid\<close> of the package \<^verbatim>\<open>semver\<close>, which is not part
  of this module: it is a parameter, a function from a string to the normalised version
  or \<^verbatim>\<open>null\<close> (\<open>None\<close>).
\<close>

definition VersionStruct :: "(string \<Rightarrow> string option) \<Rightarrow> Struct" where
  "VersionStruct validSemver = refine StringS ''Version'' (\<lambda>value. validSemver value \<noteq> None)"

text \<open>
  The expression
  \<^verbatim>\<open>/^(?:@[a-z0-9-*~][a-z0-9-*._~]*\/)?[a-z0-9-~][a-z0-9-._~]*$/u\<close>.
  It accepts ASCII characters only, so an accepted name has as many characters as
  JavaScript counts code units; \<^verbatim>\<open>size\<close> sees the same length in the model and in the
  source.
\<close>

definition NameRegExp :: RegExp where
  "NameRegExp =
     \<lparr> source =
         Seq Bol
          (Seq (Opt
                 (Seq (Chr CHR ''@'')
                 (Seq (Class [ClassRange CHR ''a'' CHR ''z'', ClassRange CHR ''0'' CHR ''9'',
                              ClassChar CHR ''-'', ClassChar CHR ''*'', ClassChar CHR ''~''])
                 (Seq (Star (Class [ClassRange CHR ''a'' CHR ''z'', ClassRange CHR ''0'' CHR ''9'',
                                    ClassChar CHR ''-'', ClassChar CHR ''*'', ClassChar CHR ''.'',
                                    ClassChar CHR ''_'', ClassChar CHR ''~'']))
                      (Chr CHR ''/'')))))
          (Seq (Class [ClassRange CHR ''a'' CHR ''z'', ClassRange CHR ''0'' CHR ''9'',
                       ClassChar CHR ''-'', ClassChar CHR ''~''])
          (Seq (Star (Class [ClassRange CHR ''a'' CHR ''z'', ClassRange CHR ''0'' CHR ''9'',
                             ClassChar CHR ''-'', ClassChar CHR ''.'', ClassChar CHR ''_'',
                             ClassChar CHR ''~'']))
               Eol))),
       global = False, sticky = False, unicode = True \<rparr>"

definition NameStruct :: Struct where
  "NameStruct = size_struct (pattern StringS NameRegExp) 1 214"

text \<open>
  \<^verbatim>\<open>type\<close> on the outside, which allows unknown keys; \<^verbatim>\<open>object\<close> for the repository.
\<close>

definition NpmSnapPackageJsonStruct :: "(string \<Rightarrow> string option) \<Rightarrow> Struct" where
  "NpmSnapPackageJsonStruct validSemver =
     TypeS
       [(''version'', VersionStruct validSemver),
        (''name'', NameStruct),
        (''main'', OptionalS (size_struct StringS 1 \<infinity>)),
        (''repository'',
           OptionalS
             (ObjectS
                [(''type'', size_struct StringS 1 \<infinity>),
                 (''url'', size_struct StringS 1 \<infinity>)]))]"

definition isNpmSnapPackageJson ::
  "(string \<Rightarrow> string option) \<Rightarrow> jsvalue \<Rightarrow> nat \<Rightarrow> (error + bool) \<times> nat" where
  "isNpmSnapPackageJson validSemver v st = is_struct v (NpmSnapPackageJsonStruct validSemver) st"

definition assertIsNpmSnapPackageJson ::
  "(string \<Rightarrow> string option) \<Rightarrow> (outcome \<Rightarrow> string) \<Rightarrow> jsvalue \<Rightarrow> nat \<Rightarrow>
     (error + unit) \<times> nat" where
  "assertIsNpmSnapPackageJson validSemver getErrorMessage v st =
     assertStruct getErrorMessage v (NpmSnapPackageJsonStruct validSemver)
       (CHR 0x22 # NpmSnapFileNames_value PackageJson @ CHR 0x22 # '' is invalid'') st"


section \<open>The predicates in the words of the specification\<close>

text \<open>
  The name grammar as the specification words it. A scope starts with a lowercase letter,
  a digit, \<^verbatim>\<open>-\<close>, \<^verbatim>\<open>*\<close> or \<^verbatim>\<open>~\<close> and continues with those and \<^verbatim>\<open>.\<close> and \<^verbatim>\<open>_\<close>. A name
  segment starts with the same characters but \<^verbatim>\<open>*\<close>, and continues with lowercase letters,
  digits and \<^verbatim>\<open>-\<close>, \<^verbatim>\<open>.\<close>, \<^verbatim>\<open>_\<close>, \<^verbatim>\<open>~\<close>.
\<close>

definition lower_or_digit :: "char \<Rightarrow> bool" where
  "lower_or_digit c =
     (((of_char CHR ''a'' :: nat) \<le> of_char c \<and> (of_char c :: nat) \<le> of_char CHR ''z'') \<or>
      ((of_char CHR ''0'' :: nat) \<le> of_char c \<and> (of_char c :: nat) \<le> of_char CHR ''9''))"

definition scope_first :: "char \<Rightarrow> bool" where
  "scope_first c = (lower_or_digit c \<or> c = CHR ''-'' \<or> c = CHR ''*'' \<or> c = CHR ''~'')"

definition scope_rest :: "char \<Rightarrow> bool" where
  "scope_rest c = (scope_first c \<or> c = CHR ''.'' \<or> c = CHR ''_'')"

definition name_first :: "char \<Rightarrow> bool" where
  "name_first c = (lower_or_digit c \<or> c = CHR ''-'' \<or> c = CHR ''~'')"

definition name_rest :: "char \<Rightarrow> bool" where
  "name_rest c =
     (lower_or_digit c \<or> c = CHR ''-'' \<or> c = CHR ''.'' \<or> c = CHR ''_'' \<or> c = CHR ''~'')"

definition scope_segment :: "string \<Rightarrow> bool" where
  "scope_segment s = (case s of [] \<Rightarrow> False | c # cs \<Rightarrow> scope_first c \<and> list_all scope_rest cs)"

definition name_segment :: "string \<Rightarrow> bool" where
  "name_segment s = (case s of [] \<Rightarrow> False | c # cs \<Rightarrow> name_first c \<and> list_all name_rest cs)"

text \<open>Every way to cut a string at an occurrence of a character.\<close>

fun splits_at :: "char \<Rightarrow> string \<Rightarrow> (string \<times> string) list" where
  "splits_at c [] = []"
| "splits_at c (x # xs) =
     (if x = c then [([], xs)] else []) @ map (\<lambda>(a, b). (x # a, b)) (splits_at c xs)"

text \<open>
  A package name is a name segment, or \<^verbatim>\<open>@\<close>, a scope, \<^verbatim>\<open>/\<close> and a name segment; nothing
  comes before or after.
\<close>

definition name_grammar :: "string \<Rightarrow> bool" where
  "name_grammar s =
     (name_segment s \<or>
      (case s of
         [] \<Rightarrow> False
       | x # rest \<Rightarrow>
           x = CHR ''@'' \<and>
           list_ex (\<lambda>(scope, name). scope_segment scope \<and> name_segment name)
             (splits_at CHR ''/'' rest)))"

text \<open>
  The version predicate: a string that \<^verbatim>\<open>validSemver\<close> accepts. The package-name
  predicate: a string of length 1 to 214 in the name grammar.
\<close>

definition version_pred :: "(string \<Rightarrow> string option) \<Rightarrow> jsvalue \<Rightarrow> bool" where
  "version_pred validSemver x = (case x of JString s \<Rightarrow> validSemver s \<noteq> None | _ \<Rightarrow> False)"

definition name_pred :: "jsvalue \<Rightarrow> bool" where
  "name_pred x =
     (case x of JString s \<Rightarrow> 1 \<le> length s \<and> length s \<le> 214 \<and> name_grammar s | _ \<Rightarrow> False)"

definition nonempty_string :: "jsvalue \<Rightarrow> bool" where
  "nonempty_string x = (case x of JString s \<Rightarrow> s \<noteq> [] | _ \<Rightarrow> False)"

text \<open>
  The repository as the specification words it, an object with non-empty strings
  \<^verbatim>\<open>type\<close> and \<^verbatim>\<open>url\<close>; and the same with no other key.
\<close>

definition open_repository :: "jsvalue \<Rightarrow> bool" where
  "open_repository r =
     (isObject r \<and> nonempty_string (get_prop r ''type'') \<and> nonempty_string (get_prop r ''url''))"

definition closed_repository :: "jsvalue \<Rightarrow> bool" where
  "closed_repository r =
     (open_repository r \<and> list_all (\<lambda>k. k = ''type'' \<or> k = ''url'') (keys_of r))"

text \<open>
  The package metadata: an object with a valid \<^verbatim>\<open>version\<close> and \<^verbatim>\<open>name\<close>, whose \<^verbatim>\<open>main\<close>,
  if present, is a non-empty string and whose \<^verbatim>\<open>repository\<close>, if present, satisfies the
  given predicate. A property is present when reading it does not give \<^verbatim>\<open>undefined\<close>.
\<close>

definition package_metadata ::
  "(jsvalue \<Rightarrow> bool) \<Rightarrow> (string \<Rightarrow> string option) \<Rightarrow> jsvalue \<Rightarrow> bool" where
  "package_metadata repository_pred validSemver v =
     (isObject v \<and>
      version_pred validSemver (get_prop v ''version'') \<and>
      name_pred (get_prop v ''name'') \<and>
      (get_prop v ''main'' = JUndefined \<or> nonempty_string (get_prop v ''main'')) \<and>
      (get_prop v ''repository'' = JUndefined \<or> repository_pred (get_prop v ''repository'')))"

text \<open>
  What decides a run: it leaves the state as it was, is valid if \<open>b\<close> holds, and otherwise
  raises a \<^verbatim>\<open>TypeError\<close> if \<open>t\<close> holds and is a failure if not.
\<close>

definition decided :: "outcome \<times> nat \<Rightarrow> bool \<Rightarrow> bool \<Rightarrow> nat \<Rightarrow> bool" where
  "decided res b t st =
     (\<exists>f. res = ((if b then Valid else if t then Threw TypeError else Invalid f), st))"

text \<open>
  When a rejected repository, and a rejected package, is rejected by an error: the first
  field that fails, in the order of the schema, is one that does not print. In the
  repository the keys outside the schema come after \<^verbatim>\<open>type\<close> and \<^verbatim>\<open>url\<close>.
\<close>

definition repository_raises :: "jsvalue \<Rightarrow> bool" where
  "repository_raises r =
     (isObject r \<and>
      (if \<not> nonempty_string (get_prop r ''type'') then print_raises (get_prop r ''type'')
       else if \<not> nonempty_string (get_prop r ''url'') then print_raises (get_prop r ''url'')
       else (case filter (\<lambda>k. k \<notin> set [''type'', ''url'']) (keys_of r) of
               [] \<Rightarrow> False
             | k # ks \<Rightarrow> print_raises (get_prop r k))))"

definition package_raises :: "(string \<Rightarrow> string option) \<Rightarrow> jsvalue \<Rightarrow> bool" where
  "package_raises validSemver v =
     (isObject v \<and>
      (if \<not> version_pred validSemver (get_prop v ''version'')
         then print_raises (get_prop v ''version'')
       else if \<not> name_pred (get_prop v ''name'') then print_raises (get_prop v ''name'')
       else if \<not> (get_prop v ''main'' = JUndefined \<or> nonempty_string (get_prop v ''main''))
         then print_raises (get_prop v ''main'')
       else repository_raises (get_prop v ''repository'')))"

text \<open>The result of a check that is decided by \<open>b\<close> and \<open>t\<close>.\<close>

definition verdict :: "bool \<Rightarrow> bool \<Rightarrow> error + bool" where
  "verdict b t = (if b then Inr True else if t then Inl TypeError else Inr False)"


subsection \<open>Semantic versions\<close>

text \<open>
  Modelled from the spec: the function \<^verbatim>\<open>valid\<close> of the package \<^verbatim>\<open>semver\<close>, which
  \<^verbatim>\<open>VersionStruct\<close> calls, is not among the sources. The specification takes it as a black
  box that accepts exactly the strings of the semver 2.0 grammar: a version core of three
  numeric identifiers separated by dots, then optionally \<^verbatim>\<open>-\<close> and dot-separated
  pre-release identifiers, then optionally \<^verbatim>\<open>+\<close> and dot-separated build identifiers. A
  numeric identifier has no leading zero; a pre-release identifier is numeric or has a
  letter or a hyphen; identifiers are made of digits, letters and hyphens. The text
  returned for a valid version is not read by the module and is taken to be the input.
\<close>

definition digit :: "char \<Rightarrow> bool" where
  "digit c = ((of_char CHR ''0'' :: nat) \<le> of_char c \<and> (of_char c :: nat) \<le> of_char CHR ''9'')"

definition letter :: "char \<Rightarrow> bool" where
  "letter c =
     (((of_char CHR ''a'' :: nat) \<le> of_char c \<and> (of_char c :: nat) \<le> of_char CHR ''z'') \<or>
      ((of_char CHR ''A'' :: nat) \<le> of_char c \<and> (of_char c :: nat) \<le> of_char CHR ''Z''))"

definition identifier_character :: "char \<Rightarrow> bool" where
  "identifier_character c = (digit c \<or> letter c \<or> c = CHR ''-'')"

definition numeric_identifier :: "string \<Rightarrow> bool" where
  "numeric_identifier s =
     (case s of
        [] \<Rightarrow> False
      | c # cs \<Rightarrow> digit c \<and> list_all digit cs \<and> (cs = [] \<or> c \<noteq> CHR ''0''))"

definition prerelease_identifier :: "string \<Rightarrow> bool" where
  "prerelease_identifier s =
     (numeric_identifier s \<or>
      (s \<noteq> [] \<and> list_all identifier_character s \<and>
       list_ex (\<lambda>c. letter c \<or> c = CHR ''-'') s))"

definition build_identifier :: "string \<Rightarrow> bool" where
  "build_identifier s = (s \<noteq> [] \<and> list_all identifier_character s)"

text \<open>The pieces of a string between the occurrences of a separator.\<close>

fun split_on :: "char \<Rightarrow> string \<Rightarrow> string list" where
  "split_on c [] = [[]]"
| "split_on c (x # xs) =
     (if x = c then [] # split_on c xs
      else (case split_on c xs of [] \<Rightarrow> [[x]] | y # ys \<Rightarrow> (x # y) # ys))"

text \<open>A string cut at the first occurrence of a character, if there is one.\<close>

definition cut_at :: "char \<Rightarrow> string \<Rightarrow> string \<times> string option" where
  "cut_at c s =
     (takeWhile (\<lambda>x. x \<noteq> c) s,
      case dropWhile (\<lambda>x. x \<noteq> c) s of [] \<Rightarrow> None | x # rest \<Rightarrow> Some rest)"

definition version_core :: "string \<Rightarrow> bool" where
  "version_core s =
     (case split_on CHR ''.'' s of
        [major, minor, patch] \<Rightarrow>
          numeric_identifier major \<and> numeric_identifier minor \<and> numeric_identifier patch
      | _ \<Rightarrow> False)"

text \<open>
  Modelled from the spec: the semver 2.0 grammar, \<^verbatim>\<open><core>\<close>, \<^verbatim>\<open><core>-<pre-release>\<close>,
  \<^verbatim>\<open><core>+<build>\<close> or \<^verbatim>\<open><core>-<pre-release>+<build>\<close>. The build comes after the first
  \<^verbatim>\<open>+\<close>, and the pre-release after the first \<^verbatim>\<open>-\<close> before it.
\<close>

definition semver_grammar :: "string \<Rightarrow> bool" where
  "semver_grammar s =
     (case cut_at CHR ''+'' s of
        (front, build) \<Rightarrow>
          (case cut_at CHR ''-'' front of
             (core, prerelease) \<Rightarrow>
               version_core core \<and>
               (case prerelease of
                  None \<Rightarrow> True
                | Some p \<Rightarrow> list_all prerelease_identifier (split_on CHR ''.'' p)) \<and>
               (case build of
                  None \<Rightarrow> True
                | Some b \<Rightarrow> list_all build_identifier (split_on CHR ''.'' b))))"

text \<open>
  Modelled from the spec: \<^verbatim>\<open>valid\<close> of the package \<^verbatim>\<open>semver\<close>, which answers \<^verbatim>\<open>null\<close>
  for a string outside the grammar. It stands for the parameter \<open>validSemver\<close> of the
  structs only where an example of the specification needs a version that is accepted.
\<close>

definition semver_valid :: "string \<Rightarrow> string option" where
  "semver_valid s = (if semver_grammar s then Some s else None)"


section \<open>The matcher on the pattern of package names\<close>

text \<open>
  The states the matcher reaches are described piece by piece: a literal, a class, a
  starred class, the end of input, the scope group and the name part. Together they give
  that the expression of \<^verbatim>\<open>NameStruct\<close> tests exactly the name grammar and, having neither
  the \<^verbatim>\<open>g\<close> nor the \<^verbatim>\<open>y\<close> flag, leaves \<^verbatim>\<open>lastIndex\<close> alone.
\<close>

declare search.simps [simp del]

lemma splits_at_iff: "(a, b) \<in> set (splits_at c s) \<longleftrightarrow> s = a @ c # b"
  by (induction s arbitrary: a) (auto simp: Cons_eq_append_conv)

lemma name_grammar_iff:
  "name_grammar s \<longleftrightarrow>
     name_segment s \<or>
     (\<exists>scope name. s = CHR ''@'' # scope @ CHR ''/'' # name \<and> scope_segment scope \<and> name_segment name)"
  by (cases s) (auto simp: name_grammar_def list_ex_iff splits_at_iff name_segment_def)

lemma mem_Seq:
  "z \<in> set (matcher (Seq a b) x) \<longleftrightarrow> (\<exists>k t. (k, t) \<in> set (matcher a x) \<and> z \<in> set (matcher b (k, t)))"
  by (cases x) auto

lemma mem_Chr: "(j, r) \<in> set (matcher (Chr c) (i, s)) \<longleftrightarrow> s = c # r \<and> j = Suc i"
  by (cases s) auto

lemma mem_Class:
  "(j, r) \<in> set (matcher (Class C) (i, s)) \<longleftrightarrow> (\<exists>x. s = x # r \<and> in_class C x \<and> j = Suc i)"
  by (cases s) auto

lemma mem_Eol: "(j, r) \<in> set (matcher Eol (i, s)) \<longleftrightarrow> s = [] \<and> r = [] \<and> j = i"
  by auto

lemma mem_Star_Class:
  "(j, r) \<in> set (matcher (Star (Class C)) (i, s)) \<longleftrightarrow>
     (\<exists>p. s = p @ r \<and> list_all (in_class C) p \<and> j = i + length p)"
proof (induction s arbitrary: i)
  case Nil
  show ?case by auto
next
  case (Cons c cs)
  show ?case
  proof (cases "in_class C c")
    case True
    then have "(j, r) \<in> set (matcher (Star (Class C)) (i, c # cs)) \<longleftrightarrow>
        (j, r) \<in> set (matcher (Star (Class C)) (Suc i, cs)) \<or> (j = i \<and> r = c # cs)"
      by auto
    also have "\<dots> \<longleftrightarrow> (\<exists>p. cs = p @ r \<and> list_all (in_class C) p \<and> j = Suc i + length p) \<or> (j = i \<and> r = c # cs)"
      by (simp only: Cons.IH)
    also have "\<dots> \<longleftrightarrow> (\<exists>p. c # cs = p @ r \<and> list_all (in_class C) p \<and> j = i + length p)"
      using True by (auto simp: Cons_eq_append_conv)
    finally show ?thesis .
  next
    case False
    then show ?thesis by (auto simp: Cons_eq_append_conv)
  qed
qed

lemma scope_first_class:
  "in_class [ClassRange CHR ''a'' CHR ''z'', ClassRange CHR ''0'' CHR ''9'',
             ClassChar CHR ''-'', ClassChar CHR ''*'', ClassChar CHR ''~''] = scope_first"
  by (auto simp: fun_eq_iff in_class_def scope_first_def lower_or_digit_def)

lemma scope_rest_class:
  "in_class [ClassRange CHR ''a'' CHR ''z'', ClassRange CHR ''0'' CHR ''9'',
             ClassChar CHR ''-'', ClassChar CHR ''*'', ClassChar CHR ''.'', ClassChar CHR ''_'',
             ClassChar CHR ''~''] = scope_rest"
  by (auto simp: fun_eq_iff in_class_def scope_rest_def scope_first_def lower_or_digit_def)

lemma name_first_class:
  "in_class [ClassRange CHR ''a'' CHR ''z'', ClassRange CHR ''0'' CHR ''9'',
             ClassChar CHR ''-'', ClassChar CHR ''~''] = name_first"
  by (auto simp: fun_eq_iff in_class_def name_first_def lower_or_digit_def)

lemma name_rest_class:
  "in_class [ClassRange CHR ''a'' CHR ''z'', ClassRange CHR ''0'' CHR ''9'',
             ClassChar CHR ''-'', ClassChar CHR ''.'', ClassChar CHR ''_'', ClassChar CHR ''~''] = name_rest"
  by (auto simp: fun_eq_iff in_class_def name_rest_def lower_or_digit_def)

lemma search_Bol_pos: "0 < i \<Longrightarrow> search (Seq Bol r) y s i = None"
proof (induction "Seq Bol r" y s i rule: search.induct)
  case (1 y s i)
  then show ?case by (subst search.simps) auto
qed

lemma search_Bol:
  "search (Seq Bol r) False s 0 = (case matcher r (0, s) of [] \<Rightarrow> None | (e, rest) # others \<Rightarrow> Some e)"
  by (subst search.simps) (simp add: search_Bol_pos split: list.splits)

lemma name_part:
  "(\<exists>j r. (j, r) \<in> set (matcher
      (Seq (Class [ClassRange CHR ''a'' CHR ''z'', ClassRange CHR ''0'' CHR ''9'',
                   ClassChar CHR ''-'', ClassChar CHR ''~''])
      (Seq (Star (Class [ClassRange CHR ''a'' CHR ''z'', ClassRange CHR ''0'' CHR ''9'',
                         ClassChar CHR ''-'', ClassChar CHR ''.'', ClassChar CHR ''_'',
                         ClassChar CHR ''~'']))
           Eol)) (i, t))) \<longleftrightarrow> name_segment t"
  unfolding mem_Seq mem_Class mem_Star_Class mem_Eol name_first_class name_rest_class
  by (cases t) (auto simp: name_segment_def simp del: matcher.simps)

lemma scope_part:
  "(j, r) \<in> set (matcher
      (Seq (Chr CHR ''@'')
      (Seq (Class [ClassRange CHR ''a'' CHR ''z'', ClassRange CHR ''0'' CHR ''9'',
                   ClassChar CHR ''-'', ClassChar CHR ''*'', ClassChar CHR ''~''])
      (Seq (Star (Class [ClassRange CHR ''a'' CHR ''z'', ClassRange CHR ''0'' CHR ''9'',
                         ClassChar CHR ''-'', ClassChar CHR ''*'', ClassChar CHR ''.'',
                         ClassChar CHR ''_'', ClassChar CHR ''~'']))
           (Chr CHR ''/'')))) (i, s)) \<longleftrightarrow>
   (\<exists>c cs. s = CHR ''@'' # c # cs @ CHR ''/'' # r \<and> scope_first c \<and> list_all scope_rest cs \<and>
      j = i + length cs + 3)"
  unfolding mem_Seq mem_Chr mem_Class mem_Star_Class scope_first_class scope_rest_class
  by (auto simp del: matcher.simps)

lemma scope_segment_iff:
  "scope_segment scope \<longleftrightarrow> (\<exists>c cs. scope = c # cs \<and> scope_first c \<and> list_all scope_rest cs)"
  by (cases scope) (auto simp: scope_segment_def)

lemma mem_Opt:
  "(j, r) \<in> set (matcher (Opt g) (i, s)) \<longleftrightarrow>
     (j = i \<and> r = s) \<or> ((j, r) \<in> set (matcher g (i, s)) \<and> length r < length s)"
  by auto

lemma RegExp_test_anchored:
  assumes "\<not> global R" "\<not> sticky R" "source R = Seq Bol r"
  shows "RegExp_test R s st = (matcher r (0, s) \<noteq> [], st)"
proof -
  have "search (source R) (sticky R) s 0 =
      (case matcher r (0, s) of [] \<Rightarrow> None | (e, rest) # others \<Rightarrow> Some e)"
    using assms search_Bol [of r s] by simp
  then show ?thesis
    using assms(1,2) by (cases "matcher r (0, s)") (auto simp: RegExp_test_def simp del: matcher.simps)
qed

lemma nonempty_matcher: "m \<noteq> [] \<longleftrightarrow> (\<exists>j r. (j, r) \<in> set m)"
  by (cases m) auto

lemma mem_Seq_Opt:
  "(\<exists>j r. (j, r) \<in> set (matcher (Seq (Opt g) n) (i, s))) \<longleftrightarrow>
     (\<exists>j r. (j, r) \<in> set (matcher n (i, s))) \<or>
     (\<exists>k t. (k, t) \<in> set (matcher g (i, s)) \<and> length t < length s \<and>
        (\<exists>j r. (j, r) \<in> set (matcher n (k, t))))"
  unfolding mem_Seq mem_Opt by (auto simp del: matcher.simps)

lemma grammar_split:
  "name_segment s \<or>
     (\<exists>k t. (\<exists>c cs. s = CHR ''@'' # c # cs @ CHR ''/'' # t \<and> scope_first c \<and>
                list_all scope_rest cs \<and> k = i + length cs + 3) \<and>
            length t < length s \<and> name_segment t) \<longleftrightarrow> name_grammar s"
  (is "_ \<or> ?A \<longleftrightarrow> _")
proof -
  have "?A \<longleftrightarrow>
      (\<exists>scope name. s = CHR ''@'' # scope @ CHR ''/'' # name \<and> scope_segment scope \<and>
             name_segment name)"
    (is "_ \<longleftrightarrow> ?B")
  proof
    assume ?A
    then obtain c cs t where "s = CHR ''@'' # c # cs @ CHR ''/'' # t" "scope_first c"
      "list_all scope_rest cs" "name_segment t" by blast
    then show ?B
      by (intro exI [of _ "c # cs"] exI [of _ t]) (simp add: scope_segment_def)
  next
    assume ?B
    then obtain scope name where s: "s = CHR ''@'' # scope @ CHR ''/'' # name"
      "scope_segment scope" "name_segment name" by blast
    then obtain c cs where c: "scope = c # cs" "scope_first c" "list_all scope_rest cs"
      by (auto simp: scope_segment_iff)
    show ?A
      by (rule exI [of _ "i + length cs + 3"], rule exI [of _ name]) (use s c in simp)
  qed
  then show ?thesis by (simp only: name_grammar_iff)
qed

lemma NameRegExp_test: "RegExp_test NameRegExp s st = (name_grammar s, st)"
  apply (subst RegExp_test_anchored)
     apply (simp_all only: NameRegExp_def RegExp.simps simp_thms)
  apply (simp only: nonempty_matcher)
  apply (subst mem_Seq_Opt)
  apply (simp only: name_part scope_part)
  apply (simp only: grammar_split)
  done


section \<open>Validation of the structs of the module\<close>

text \<open>
  First \<^verbatim>\<open>run\<close> on each combinator, then what decides the run of each struct of the
  module, up to \<^verbatim>\<open>NpmSnapPackageJsonStruct\<close>: when it is valid, and when it ends in an
  error instead of a failure.
\<close>

declare run.simps [simp del]

lemma entries_undefined: "entries s JUndefined = []"
  by (induction s) auto

text \<open>Only objects and arrays fail to print, so a failed test of a primitive is a failure.\<close>

lemma print_raises_isObject: "print_raises v \<Longrightarrow> isObject v"
  by (cases v) (simp_all add: print_raises_def)

lemma failed_test_not_object: "\<not> isObject v \<Longrightarrow> failed_test v = Inr False"
  using print_raises_isObject [of v] by (auto simp: failed_test_def)

lemma validator_undefined: "validator s JUndefined = Inr True \<or> validator s JUndefined = Inr False"
  by (induction s) (simp_all add: failed_test_def print_raises_def)

lemma run_StringS:
  "run StringS v path st =
     ((case v of
         JString s \<Rightarrow> Valid
       | _ \<Rightarrow> if print_raises v then Threw TypeError else Invalid (Failure ''string'' None path)),
      st)"
  by (cases v) (simp_all add: run.simps failed_test_def)

lemma run_NeverS:
  "run NeverS v path st =
     ((if print_raises v then Threw TypeError else Invalid (Failure ''never'' None path)), st)"
  by (simp add: run.simps failed_test_def)

lemma run_OptionalS:
  "run (OptionalS s) v path st = (if v = JUndefined then (Valid, st) else run s v path st)"
  by (auto simp: run.simps [of "OptionalS s"] run.simps [of s] entries_undefined
        split: prod.splits outcome.splits sum.splits bool.splits)

lemma run_RefineS:
  "run (RefineS s name r) v path st =
     (case run s v path st of
        (Valid, st') \<Rightarrow>
          (case apply_refiner r v st' of
             (Inr True, st'') \<Rightarrow> (Valid, st'')
           | (Inr False, st'') \<Rightarrow> (Invalid (Failure (type_of s) (Some name) path), st'')
           | (Inl e, st'') \<Rightarrow> (Threw e, st''))
      | other \<Rightarrow> other)"
  by (simp add: run.simps [of "RefineS s name r"] run.simps [of s]
      split: prod.splits outcome.splits sum.splits bool.splits)

lemma run_TypeS:
  "run (TypeS schema) v path st =
     (if isObject v then run_entries (map (\<lambda>(k, s). (k, get_prop v k, s)) schema) path st
      else (Invalid (Failure ''type'' None path), st))"
  by (simp add: run.simps [of "TypeS schema"] failed_test_not_object
      split: prod.splits outcome.splits)

lemma run_ObjectS:
  "run (ObjectS schema) v path st =
     (if isObject v then
        run_entries
          (map (\<lambda>(k, s). (k, get_prop v k, s)) schema @
           map (\<lambda>k. (k, get_prop v k, NeverS)) (filter (\<lambda>k. k \<notin> set (map fst schema)) (keys_of v)))
          path st
      else (Invalid (Failure ''object'' None path), st))"
  by (simp add: run.simps [of "ObjectS schema"] failed_test_not_object
      split: prod.splits outcome.splits)

lemma decided_VersionStruct:
  "decided (run (VersionStruct validSemver) v path st) (version_pred validSemver v)
     (print_raises v) st"
  by (cases v)
    (auto simp: decided_def VersionStruct_def refine_def run_RefineS run_StringS version_pred_def
       print_raises_def split: bool.splits)

lemma decided_NameStruct: "decided (run NameStruct v path st) (name_pred v) (print_raises v) st"
  by (cases v)
    (auto simp: decided_def NameStruct_def size_struct_def pattern_def run_RefineS run_StringS
       name_pred_def NameRegExp_test numeral_eq_enat print_raises_def split: bool.splits)

lemma decided_nonempty:
  "decided (run (size_struct StringS 1 \<infinity>) v path st) (nonempty_string v) (print_raises v) st"
  by (cases v)
    (auto simp: decided_def size_struct_def run_RefineS run_StringS nonempty_string_def
       Suc_le_eq print_raises_def split: bool.splits)

lemma decided_OptionalS:
  "decided (run s v path st) b t st \<Longrightarrow>
   decided (run (OptionalS s) v path st) (v = JUndefined \<or> b) t st"
  by (auto simp: decided_def run_OptionalS)

lemma decided_Nil: "decided (run_entries [] path st) True t st"
  by (simp add: decided_def)

lemma decided_Cons:
  "decided (run s v (path @ [k]) st) b t st \<Longrightarrow> decided (run_entries es path st) c u st \<Longrightarrow>
   decided (run_entries ((k, v, s) # es) path st) (b \<and> c) (if b then u else t) st"
  by (auto simp: decided_def split: if_splits)

lemma run_entries_append:
  "run_entries (es @ es') path st =
     (case run_entries es path st of
        (Valid, st') \<Rightarrow> run_entries es' path st'
      | other \<Rightarrow> other)"
  by (induction es arbitrary: st) (auto split: prod.splits outcome.splits)

lemma decided_append:
  "decided (run_entries es path st) b t st \<Longrightarrow> decided (run_entries es' path st) c u st \<Longrightarrow>
   decided (run_entries (es @ es') path st) (b \<and> c) (if b then u else t) st"
  by (auto simp: decided_def run_entries_append split: if_splits)

lemma decided_never:
  "decided (run_entries (map (\<lambda>k. (k, get_prop v k, NeverS)) ks) path st) (ks = [])
     (case ks of [] \<Rightarrow> False | k # ks' \<Rightarrow> print_raises (get_prop v k)) st"
  by (cases ks) (auto simp: decided_def run_NeverS)

lemma decided_TypeS:
  "decided (run_entries (map (\<lambda>(k, s). (k, get_prop v k, s)) schema) path st) b t st \<Longrightarrow>
   decided (run (TypeS schema) v path st) (isObject v \<and> b) (isObject v \<and> t) st"
  by (auto simp: decided_def run_TypeS)

lemma decided_ObjectS:
  "decided (run_entries (map (\<lambda>(k, s). (k, get_prop v k, s)) schema) path st) b t st \<Longrightarrow>
   decided (run (ObjectS schema) v path st)
     (isObject v \<and> b \<and> filter (\<lambda>k. k \<notin> set (map fst schema)) (keys_of v) = [])
     (isObject v \<and>
      (if b then (case filter (\<lambda>k. k \<notin> set (map fst schema)) (keys_of v) of
                    [] \<Rightarrow> False | k # ks' \<Rightarrow> print_raises (get_prop v k))
       else t)) st"
  using decided_append [OF _ decided_never, of "map (\<lambda>(k, s). (k, get_prop v k, s)) schema" path st b t v
      "filter (\<lambda>k. k \<notin> set (map fst schema)) (keys_of v)"]
  by (auto simp: decided_def run_ObjectS)

lemma decided_iff:
  "decided res b t st \<Longrightarrow> b = c \<Longrightarrow> (\<not> b \<Longrightarrow> t = u) \<Longrightarrow> decided res c u st"
  by (auto simp: decided_def)

lemma decided_repository:
  "decided
     (run (ObjectS [(''type'', size_struct StringS 1 \<infinity>), (''url'', size_struct StringS 1 \<infinity>)])
        r path st)
     (closed_repository r) (repository_raises r) st"
proof -
  have "decided
     (run_entries
        (map (\<lambda>(k, s). (k, get_prop r k, s))
           [(''type'', size_struct StringS 1 \<infinity>), (''url'', size_struct StringS 1 \<infinity>)])
        path st)
     (nonempty_string (get_prop r ''type'') \<and> nonempty_string (get_prop r ''url'') \<and> True)
     (if nonempty_string (get_prop r ''type'')
      then (if nonempty_string (get_prop r ''url'') then False
            else print_raises (get_prop r ''url''))
      else print_raises (get_prop r ''type'')) st"
    by (simp only: list.map prod.case) (intro decided_Cons decided_Nil decided_nonempty)
  from decided_ObjectS [OF this] show ?thesis
    by (rule decided_iff)
      (auto simp: closed_repository_def open_repository_def repository_raises_def
         filter_empty_conv list_all_iff split: list.splits)
qed

lemma decided_package:
  "decided (run (NpmSnapPackageJsonStruct validSemver) v path st)
     (package_metadata closed_repository validSemver v) (package_raises validSemver v) st"
proof -
  have "decided
     (run_entries
        (map (\<lambda>(k, s). (k, get_prop v k, s))
           [(''version'', VersionStruct validSemver),
            (''name'', NameStruct),
            (''main'', OptionalS (size_struct StringS 1 \<infinity>)),
            (''repository'',
               OptionalS
                 (ObjectS
                    [(''type'', size_struct StringS 1 \<infinity>),
                     (''url'', size_struct StringS 1 \<infinity>)]))])
        path st)
     (version_pred validSemver (get_prop v ''version'') \<and>
      name_pred (get_prop v ''name'') \<and>
      (get_prop v ''main'' = JUndefined \<or> nonempty_string (get_prop v ''main'')) \<and>
      (get_prop v ''repository'' = JUndefined \<or> closed_repository (get_prop v ''repository'')) \<and>
      True)
     (if version_pred validSemver (get_prop v ''version'')
      then (if name_pred (get_prop v ''name'')
            then (if get_prop v ''main'' = JUndefined \<or> nonempty_string (get_prop v ''main'')
                  then (if get_prop v ''repository'' = JUndefined \<or>
                           closed_repository (get_prop v ''repository'')
                        then False
                        else repository_raises (get_prop v ''repository''))
                  else print_raises (get_prop v ''main''))
            else print_raises (get_prop v ''name''))
      else print_raises (get_prop v ''version'')) st"
    by (simp only: list.map prod.case)
      (intro decided_Cons decided_Nil decided_VersionStruct decided_NameStruct decided_OptionalS
         decided_nonempty decided_repository)
  from decided_TypeS [OF this] show ?thesis
    unfolding NpmSnapPackageJsonStruct_def
    by (rule decided_iff) (auto simp: package_metadata_def package_raises_def)
qed

text \<open>The results of \<^verbatim>\<open>is\<close> and of \<^verbatim>\<open>assertStruct\<close> on a decided run.\<close>

lemma is_struct_decided:
  "decided (run s v [] st) b t st \<Longrightarrow> is_struct v s st = (verdict b t, st)"
  by (auto simp: decided_def is_struct_def validate_def verdict_def)

lemma assertStruct_decided:
  "decided (run s v [] st) b t st \<Longrightarrow>
   \<exists>caught. assertStruct g v s pre st =
     ((if b then Inr () else Inl (AssertionError (pre @ '': '' @ g caught @ ''.''))), st)"
  by (auto simp: decided_def assertStruct_def validate_def)

lemma isNpmSnapPackageJson_eq:
  "isNpmSnapPackageJson validSemver v st =
     (verdict (package_metadata closed_repository validSemver v) (package_raises validSemver v), st)"
  unfolding isNpmSnapPackageJson_def by (rule is_struct_decided [OF decided_package])

lemma is_struct_VersionStruct:
  "is_struct v (VersionStruct validSemver) st =
     (verdict (version_pred validSemver v) (print_raises v), st)"
  by (rule is_struct_decided [OF decided_VersionStruct])

lemma is_struct_NameStruct:
  "is_struct v NameStruct st = (verdict (name_pred v) (print_raises v), st)"
  by (rule is_struct_decided [OF decided_NameStruct])

lemma assertIsNpmSnapPackageJson_eq:
  "\<exists>caught. assertIsNpmSnapPackageJson validSemver getErrorMessage v st =
     ((if package_metadata closed_repository validSemver v then Inr ()
       else Inl (AssertionError
         ((CHR 0x22 # NpmSnapFileNames_value PackageJson @ CHR 0x22 # '' is invalid'') @
            '': '' @ getErrorMessage caught @ ''.''))), st)"
  unfolding assertIsNpmSnapPackageJson_def by (rule assertStruct_decided [OF decided_package])



section \<open>Facts about the predicates of the specification\<close>

text \<open>The definitions that evaluate the predicates on a given value.\<close>

lemmas name_defs = name_pred_def name_grammar_def name_segment_def scope_segment_def
  name_first_def name_rest_def scope_first_def scope_rest_def lower_or_digit_def

lemmas semver_defs = semver_valid_def semver_grammar_def cut_at_def version_core_def
  numeric_identifier_def digit_def

text \<open>
  The examples of the specification for versions, on the semver grammar. (Whether
  \<^verbatim>\<open>valid\<close> of the package \<^verbatim>\<open>semver\<close> agrees with the grammar on them is outside the
  sources.)
\<close>

lemma semver_examples:
  "semver_valid ''1.0.0'' \<noteq> None" "semver_valid ''1.2.3'' \<noteq> None"
  "semver_valid ''1.0'' = None" "semver_valid ''v1.0.0'' = None" "semver_valid [] = None"
  by (simp_all add: semver_defs)

text \<open>The examples of the specification for the package-name predicate.\<close>

lemma name_examples:
  "name_pred (JString ''my-snap'')"
  "name_pred (JString ''@scope/my-snap'')"
  "\<not> name_pred (JString ''My-Snap'')"
  "\<not> name_pred (JString [])"
  "name_grammar (replicate 215 CHR ''a'')"
  "\<not> name_pred (JString (replicate 215 CHR ''a''))"
  by (simp_all add: name_defs list_all_iff eval_nat_numeral)

lemma lower_or_digit_simps:
  "\<not> lower_or_digit CHR ''*''" "\<not> lower_or_digit CHR ''/''" "\<not> lower_or_digit CHR ''@''"
  by (simp_all add: lower_or_digit_def)

lemma name_segment_no_star: "name_segment t \<Longrightarrow> CHR ''*'' \<notin> set t"
  by (cases t)
    (auto simp: name_segment_def name_first_def name_rest_def list_all_iff lower_or_digit_simps)

text \<open>Any character of a scope segment may be replaced by \<^verbatim>\<open>*\<close>.\<close>

lemma scope_segment_star:
  "scope_segment scope \<Longrightarrow> j < length scope \<Longrightarrow> scope_segment (scope[j := CHR ''*''])"
proof (cases scope)
  case Nil
  then show "scope_segment scope \<Longrightarrow> j < length scope \<Longrightarrow> ?thesis" by simp
next
  case (Cons c cs)
  assume a: "scope_segment scope" "j < length scope"
  show ?thesis
  proof (cases j)
    case 0
    with a Cons show ?thesis by (simp add: scope_segment_def scope_first_def)
  next
    case (Suc n)
    have "set (cs[n := CHR ''*'']) \<subseteq> insert (CHR ''*'') (set cs)"
      by (rule set_update_subset_insert)
    with a Cons Suc show ?thesis
      by (auto simp: scope_segment_def scope_first_def scope_rest_def list_all_iff)
  qed
qed

lemma get_prop_append_other:
  "k' \<noteq> k \<Longrightarrow> get_prop (JObject (kvs @ [(k, x)])) k' = get_prop (JObject kvs) k'"
  by (simp add: map_of_append map_add_def split: option.splits)

text \<open>
  The repository is closed: with a key other than \<^verbatim>\<open>type\<close> and \<^verbatim>\<open>url\<close> in the repository,
  the check never returns true.
\<close>

lemma extra_repository_key_never_accepted:
  assumes "get_prop v ''repository'' = r" and "isObject r"
    and "k \<in> set (keys_of r)" and "k \<noteq> ''type''" and "k \<noteq> ''url''"
  shows "fst (isNpmSnapPackageJson validSemver v st) \<noteq> Inr True"
proof -
  from assms(2) have "r \<noteq> JUndefined" by auto
  moreover from assms(3-5) have "\<not> closed_repository r"
    by (auto simp: closed_repository_def list_all_iff)
  ultimately show ?thesis
    using assms(1) by (simp add: isNpmSnapPackageJson_eq package_metadata_def verdict_def)
qed

lemmas metadata_defs = package_metadata_def package_raises_def repository_raises_def
  closed_repository_def open_repository_def version_pred_def nonempty_string_def
  print_raises_def verdict_def


section \<open>The claims\<close>

subsection \<open>Exported constants\<close>

text \<open>
  Claim C8. The file-name enum maps \<^verbatim>\<open>PackageJson\<close> to \<^verbatim>\<open>package.json\<close> and \<^verbatim>\<open>Manifest\<close>
  to \<^verbatim>\<open>snap.manifest.json\<close>; the snap-id-prefix enum maps \<^verbatim>\<open>npm\<close> to \<^verbatim>\<open>npm:\<close> and
  \<^verbatim>\<open>local\<close> to \<^verbatim>\<open>local:\<close>.
\<close>

theorem exported_constants:
  "NpmSnapFileNames_value PackageJson = ''package.json'' \<and>
   NpmSnapFileNames_value Manifest = ''snap.manifest.json'' \<and>
   SnapIdPrefixes_value npm = ''npm:'' \<and>
   SnapIdPrefixes_value local = ''local:''"
  by simp


subsection \<open>Versions\<close>

text \<open>
  Claim C1 says that the version check rejects every value that is not a string and raises
  no exception. On the object \<^verbatim>\<open>{"toString": 1}\<close> the check, \<^verbatim>\<open>is(value, VersionStruct)\<close>,
  does not return false: \<^verbatim>\<open>string()\<close> fails and builds its message with
  \<^verbatim>\<open>print(value)\<close>, the conversion of the value to a string raises a \<^verbatim>\<open>TypeError\<close>, and
  nothing catches it. This holds whatever \<^verbatim>\<open>semver\<close> answers, since \<^verbatim>\<open>valid\<close> is not
  reached.
\<close>

theorem version_check_raises_on_unprintable_value:
  "is_struct (JObject [(''toString'', JNumber 1)]) (VersionStruct validSemver) st =
     (Inl TypeError, st)"
  by (simp add: is_struct_VersionStruct verdict_def version_pred_def print_raises_def)


subsection \<open>Package names\<close>

text \<open>
  Claim C2. For every string \<open>s\<close>, \<^verbatim>\<open>NameStruct\<close> accepts \<open>s\<close> if and only if the length
  of \<open>s\<close> is between 1 and 214 and \<open>s\<close> is in the name grammar: an optional scope segment
  and then a name segment, lowercase only, the whole string matched. A string of length
  0, or of length 215 or more, or outside the grammar, is rejected; no exception is
  raised and \<^verbatim>\<open>lastIndex\<close> is left as it was.
\<close>

theorem NameStruct_accepts_iff:
  "is_struct (JString s) NameStruct st =
     (Inr (1 \<le> length s \<and> length s \<le> 214 \<and> name_grammar s), st)"
  by (simp add: is_struct_NameStruct name_pred_def verdict_def print_raises_def)

text \<open>
  Claim C3, as stated: an accepted name has \<^verbatim>\<open>*\<close> only as the first character after
  \<^verbatim>\<open>@\<close>. The name \<^verbatim>\<open>@a*/b\<close> is accepted and has its \<^verbatim>\<open>*\<close> at index 2, not at index 1: the
  class of the later scope characters, \<^verbatim>\<open>[a-z0-9-*._~]\<close>, has \<^verbatim>\<open>*\<close> too.
\<close>

theorem star_after_first_scope_character:
  "is_struct (JString ''@a*/b'') NameStruct 0 = (Inr True, 0) \<and>
   ''@a*/b'' ! 2 = CHR ''*'' \<and> ''@a*/b'' ! 1 \<noteq> CHR ''*''"
  by (simp add: is_struct_NameStruct verdict_def name_defs)

text \<open>
  Claim C3, amended. \<^verbatim>\<open>*\<close> is permitted anywhere in the scope segment, at its first
  character and at the later ones, and nowhere in the name segment. First, when an accepted
  name has \<^verbatim>\<open>*\<close> at index \<open>i\<close>, the name is \<^verbatim>\<open>@<scope>/<name>\<close>, the index lies inside the
  scope, and the name segment has no \<^verbatim>\<open>*\<close>. Second, every position of a scope may hold
  \<^verbatim>\<open>*\<close>: when \<^verbatim>\<open>@<scope>/<name>\<close> is made of a scope segment and a name segment and is not
  longer than 214, the name with the character at any position \<open>j\<close> of the scope replaced
  by \<^verbatim>\<open>*\<close> is accepted.
\<close>

theorem star_anywhere_in_scope_only:
  "(is_struct (JString s) NameStruct st = (Inr True, st) \<and> i < length s \<and> s ! i = CHR ''*'' \<longrightarrow>
      (\<exists>scope name. s = CHR ''@'' # scope @ CHR ''/'' # name \<and> scope_segment scope \<and>
         name_segment name \<and> 0 < i \<and> i \<le> length scope \<and> CHR ''*'' \<notin> set name)) \<and>
   (scope_segment scope' \<and> name_segment name' \<and> length scope' + length name' + 2 \<le> 214 \<and>
    j < length scope' \<longrightarrow>
      is_struct (JString (CHR ''@'' # scope'[j := CHR ''*''] @ CHR ''/'' # name')) NameStruct st =
        (Inr True, st))"
proof (intro conjI impI; (elim conjE)?)
  assume acc: "is_struct (JString s) NameStruct st = (Inr True, st)"
    and i: "i < length s" and star: "s ! i = CHR ''*''"
  from acc have g: "name_grammar s"
    by (simp add: is_struct_NameStruct name_pred_def verdict_def print_raises_def split: if_splits)
  from i star have "CHR ''*'' \<in> set s"
    by (metis nth_mem)
  with g name_segment_no_star obtain scope name where
    s: "s = CHR ''@'' # scope @ CHR ''/'' # name" and sc: "scope_segment scope"
    and nm: "name_segment name"
    unfolding name_grammar_iff by blast
  have no: "CHR ''*'' \<notin> set name" using nm by (rule name_segment_no_star)
  have "0 < i" using star s by (cases i) auto
  moreover have "i \<le> length scope"
  proof (rule ccontr)
    assume "\<not> i \<le> length scope"
    then obtain m where "i = Suc (length scope) + m"
      by (metis add_Suc less_iff_Suc_add not_le)
    with i star s have "(CHR ''/'' # name) ! m = CHR ''*''" "m < Suc (length name)"
      by (auto simp: nth_append nth_Cons')
    with no show False by (cases m) (auto dest!: nth_mem)
  qed
  ultimately show "\<exists>scope name. s = CHR ''@'' # scope @ CHR ''/'' # name \<and> scope_segment scope \<and>
         name_segment name \<and> 0 < i \<and> i \<le> length scope \<and> CHR ''*'' \<notin> set name"
    using s sc nm no by blast
next
  assume sc: "scope_segment scope'" and nm: "name_segment name'"
    and len: "length scope' + length name' + 2 \<le> 214" and j: "j < length scope'"
  from sc j have "scope_segment (scope'[j := CHR ''*''])" by (rule scope_segment_star)
  with nm have "name_grammar (CHR ''@'' # scope'[j := CHR ''*''] @ CHR ''/'' # name')"
    unfolding name_grammar_iff by blast
  with len show "is_struct (JString (CHR ''@'' # scope'[j := CHR ''*''] @ CHR ''/'' # name'))
      NameStruct st = (Inr True, st)"
    by (simp add: is_struct_NameStruct name_pred_def verdict_def)
qed

text \<open>
  The amended claim C3 at the name \<^verbatim>\<open>@a*/b\<close> and the index 2, and at the scope \<^verbatim>\<open>ab\<close> with
  the name \<^verbatim>\<open>c\<close>: \<^verbatim>\<open>@*b/c\<close>, with \<^verbatim>\<open>*\<close> first in the scope, and \<^verbatim>\<open>@a*/c\<close>, with \<^verbatim>\<open>*\<close> later
  in the scope, are both accepted.
\<close>

theorem star_anywhere_in_scope_only_witness:
  "is_struct (JString ''@a*/b'') NameStruct 0 = (Inr True, 0) \<and> (2::nat) < length ''@a*/b'' \<and>
   ''@a*/b'' ! 2 = CHR ''*'' \<and>
   (\<exists>scope name. ''@a*/b'' = CHR ''@'' # scope @ CHR ''/'' # name \<and> scope_segment scope \<and>
      name_segment name \<and> (0::nat) < 2 \<and> 2 \<le> length scope \<and> CHR ''*'' \<notin> set name) \<and>
   scope_segment ''ab'' \<and> name_segment ''c'' \<and> length ''ab'' + length ''c'' + 2 \<le> 214 \<and>
   is_struct (JString ''@*b/c'') NameStruct 0 = (Inr True, 0) \<and>
   is_struct (JString ''@a*/c'') NameStruct 0 = (Inr True, 0)"
proof -
  have a: "is_struct (JString ''@a*/b'') NameStruct 0 = (Inr True, 0)"
    by (simp add: is_struct_NameStruct verdict_def name_defs)
  have b: "(2::nat) < length ''@a*/b''" "''@a*/b'' ! 2 = CHR ''*''" by simp_all
  have c: "scope_segment ''ab''" "name_segment ''c''" "length ''ab'' + length ''c'' + 2 \<le> 214"
    by (simp_all add: name_defs)
  from star_anywhere_in_scope_only [of "''@a*/b''" 0 2 "''ab''" "''c''" 0] a b c
  have 1: "\<exists>scope name. ''@a*/b'' = CHR ''@'' # scope @ CHR ''/'' # name \<and> scope_segment scope \<and>
      name_segment name \<and> (0::nat) < 2 \<and> 2 \<le> length scope \<and> CHR ''*'' \<notin> set name"
    and 2: "is_struct (JString ''@*b/c'') NameStruct 0 = (Inr True, 0)"
    by simp_all
  from star_anywhere_in_scope_only [of "''@a*/b''" 0 2 "''ab''" "''c''" 1] c
  have 3: "is_struct (JString ''@a*/c'') NameStruct 0 = (Inr True, 0)"
    by simp
  from a b c 1 2 3 show ?thesis by blast
qed


subsection \<open>The package metadata\<close>

text \<open>
  Claim C4, as stated: the check succeeds exactly when the value is an object with a valid
  version and name, with \<^verbatim>\<open>main\<close>, if present, a non-empty string, and with
  \<^verbatim>\<open>repository\<close>, if present, an object with non-empty strings \<^verbatim>\<open>type\<close> and \<^verbatim>\<open>url\<close>. With any
  version accepted, the value below meets that description and is rejected: its repository
  has the further key \<^verbatim>\<open>directory\<close>.
\<close>

theorem open_repository_counterexample:
  "package_metadata open_repository Some
     (JObject [(''version'', JString ''1.2.3''), (''name'', JString ''a''),
               (''repository'',
                  JObject [(''type'', JString ''git''), (''url'', JString ''u''),
                           (''directory'', JString ''d'')])]) \<and>
   isNpmSnapPackageJson Some
     (JObject [(''version'', JString ''1.2.3''), (''name'', JString ''a''),
               (''repository'',
                  JObject [(''type'', JString ''git''), (''url'', JString ''u''),
                           (''directory'', JString ''d'')])]) 0 = (Inr False, 0)"
  by (simp add: isNpmSnapPackageJson_eq metadata_defs name_defs)

text \<open>
  Claim C4, amended. \<^verbatim>\<open>isNpmSnapPackageJson(v)\<close> returns true if and only if \<open>v\<close> is an
  object whose \<^verbatim>\<open>version\<close> satisfies the version predicate and whose \<^verbatim>\<open>name\<close> satisfies the
  package-name predicate, whose \<^verbatim>\<open>main\<close>, if present, is a non-empty string, and whose
  \<^verbatim>\<open>repository\<close>, if present, is an object with non-empty strings \<^verbatim>\<open>type\<close> and \<^verbatim>\<open>url\<close> and no
  other key. The version predicate and the package-name predicate are the values on which
  the checks of \<^verbatim>\<open>VersionStruct\<close> and \<^verbatim>\<open>NameStruct\<close> return true. A further top-level key
  never changes the result. With the versions of the semver grammar,
  \<^verbatim>\<open>{version: "1.2.3", name: "a"}\<close> is valid with and without the key \<^verbatim>\<open>extra\<close>; without
  \<^verbatim>\<open>name\<close>, with an empty \<^verbatim>\<open>main\<close>, or with a repository that lacks \<^verbatim>\<open>url\<close>, the check
  returns false.
\<close>

theorem isNpmSnapPackageJson_iff:
  "(fst (isNpmSnapPackageJson validSemver v st) = Inr True \<longleftrightarrow>
      package_metadata closed_repository validSemver v) \<and>
   (fst (is_struct w (VersionStruct validSemver) st) = Inr True \<longleftrightarrow> version_pred validSemver w) \<and>
   (fst (is_struct w NameStruct st) = Inr True \<longleftrightarrow> name_pred w) \<and>
   (k \<notin> set [''version'', ''name'', ''main'', ''repository''] \<longrightarrow>
      isNpmSnapPackageJson validSemver (JObject (kvs @ [(k, x)])) st =
      isNpmSnapPackageJson validSemver (JObject kvs) st) \<and>
   isNpmSnapPackageJson semver_valid
     (JObject [(''version'', JString ''1.2.3''), (''name'', JString ''a'')]) st = (Inr True, st) \<and>
   isNpmSnapPackageJson semver_valid
     (JObject [(''version'', JString ''1.2.3''), (''name'', JString ''a''),
               (''extra'', JNumber 1)]) st = (Inr True, st) \<and>
   isNpmSnapPackageJson semver_valid (JObject [(''version'', JString ''1.2.3'')]) st =
     (Inr False, st) \<and>
   isNpmSnapPackageJson semver_valid
     (JObject [(''version'', JString ''1.2.3''), (''name'', JString ''a''),
               (''main'', JString [])]) st = (Inr False, st) \<and>
   isNpmSnapPackageJson semver_valid
     (JObject [(''version'', JString ''1.2.3''), (''name'', JString ''a''),
               (''repository'', JObject [(''type'', JString ''git'')])]) st = (Inr False, st)"
proof (intro conjI impI)
  show "fst (isNpmSnapPackageJson validSemver v st) = Inr True \<longleftrightarrow>
      package_metadata closed_repository validSemver v"
    by (simp add: isNpmSnapPackageJson_eq verdict_def)
next
  show "fst (is_struct w (VersionStruct validSemver) st) = Inr True \<longleftrightarrow> version_pred validSemver w"
    by (simp add: is_struct_VersionStruct verdict_def)
next
  show "fst (is_struct w NameStruct st) = Inr True \<longleftrightarrow> name_pred w"
    by (simp add: is_struct_NameStruct verdict_def)
next
  assume "k \<notin> set [''version'', ''name'', ''main'', ''repository'']"
  then have "get_prop (JObject (kvs @ [(k, x)])) k' = get_prop (JObject kvs) k'"
    if "k' \<in> set [''version'', ''name'', ''main'', ''repository'']" for k'
    using that by (intro get_prop_append_other) auto
  then show "isNpmSnapPackageJson validSemver (JObject (kvs @ [(k, x)])) st =
      isNpmSnapPackageJson validSemver (JObject kvs) st"
    by (simp add: isNpmSnapPackageJson_eq package_metadata_def package_raises_def
        del: get_prop.simps)
qed (simp_all add: isNpmSnapPackageJson_eq metadata_defs name_defs semver_defs)

text \<open>
  The amended claim C4 at the key \<^verbatim>\<open>extra\<close> and the object \<^verbatim>\<open>{version: "1.2.3", name: "a"}\<close>,
  with the versions of the semver grammar: the key is none of the four of the schema, the
  object is valid, and it has the same result with the key.
\<close>

theorem isNpmSnapPackageJson_iff_witness:
  "''extra'' \<notin> set [''version'', ''name'', ''main'', ''repository''] \<and>
   isNpmSnapPackageJson semver_valid
     (JObject ([(''version'', JString ''1.2.3''), (''name'', JString ''a'')] @
               [(''extra'', JNumber 1)])) 0 =
   isNpmSnapPackageJson semver_valid
     (JObject [(''version'', JString ''1.2.3''), (''name'', JString ''a'')]) 0 \<and>
   isNpmSnapPackageJson semver_valid
     (JObject [(''version'', JString ''1.2.3''), (''name'', JString ''a'')]) 0 = (Inr True, 0)"
proof -
  have k: "''extra'' \<notin> set [''version'', ''name'', ''main'', ''repository'']" by simp
  note inst = isNpmSnapPackageJson_iff
    [where validSemver = semver_valid and st = 0 and k = "''extra''" and x = "JNumber 1"
      and kvs = "[(''version'', JString ''1.2.3''), (''name'', JString ''a'')]"]
  from inst k show ?thesis by blast
qed

text \<open>
  Claim C9 says that a further key in the repository, with the version, the name, the type
  and the url all valid, makes \<^verbatim>\<open>isNpmSnapPackageJson\<close> return false. With the versions of
  the semver grammar, the value below has those four fields valid and the further key
  \<^verbatim>\<open>directory\<close> in its repository, and the check does not return false: \<^verbatim>\<open>object()\<close> runs
  \<^verbatim>\<open>never()\<close> on the value \<^verbatim>\<open>{"toString": null}\<close> of that key, the failure is built with
  \<^verbatim>\<open>print(value)\<close>, and the conversion to a string raises a \<^verbatim>\<open>TypeError\<close>. So it is
  for whatever \<^verbatim>\<open>semver\<close> answers: the check raises as soon as the version \<^verbatim>\<open>1.2.3\<close> is
  accepted. (The check never returns true on a repository with a further key: lemma
  \<open>extra_repository_key_never_accepted\<close>.)
\<close>

theorem repository_check_raises_on_unprintable_extra_value:
  "isNpmSnapPackageJson semver_valid
     (JObject [(''version'', JString ''1.2.3''), (''name'', JString ''a''),
               (''repository'',
                  JObject [(''type'', JString ''git''), (''url'', JString ''u''),
                           (''directory'', JObject [(''toString'', JNull)])])]) st =
     (Inl TypeError, st) \<and>
   isNpmSnapPackageJson validSemver
     (JObject [(''version'', JString ''1.2.3''), (''name'', JString ''a''),
               (''repository'',
                  JObject [(''type'', JString ''git''), (''url'', JString ''u''),
                           (''directory'', JObject [(''toString'', JNull)])])]) st =
     ((if validSemver ''1.2.3'' = None then Inr False else Inl TypeError), st)"
  by (simp add: isNpmSnapPackageJson_eq metadata_defs name_defs semver_defs)


subsection \<open>The assertion\<close>

text \<open>
  Claim C5. When the value satisfies the package-metadata predicate,
  \<^verbatim>\<open>assertIsNpmSnapPackageJson\<close> returns normally and leaves the state as it was. When it
  does not, the assertion fails with an assertion error whose message starts with the
  file name \<^verbatim>\<open>NpmSnapFileNames.PackageJson\<close> between double quotes and \<^verbatim>\<open> is invalid\<close>,
  that is, with \<^verbatim>\<open>"package.json" is invalid\<close>.
\<close>

theorem assertIsNpmSnapPackageJson_result:
  "(fst (isNpmSnapPackageJson validSemver v st) = Inr True \<longrightarrow>
      assertIsNpmSnapPackageJson validSemver getErrorMessage v st = (Inr (), st)) \<and>
   (fst (isNpmSnapPackageJson validSemver v st) \<noteq> Inr True \<longrightarrow>
      (\<exists>detail. assertIsNpmSnapPackageJson validSemver getErrorMessage v st =
         (Inl (AssertionError
            (CHR 0x22 # NpmSnapFileNames_value PackageJson @ CHR 0x22 # '' is invalid'' @ detail)),
          st))) \<and>
   CHR 0x22 # NpmSnapFileNames_value PackageJson @ CHR 0x22 # '' is invalid'' =
     [CHR 0x22] @ ''package.json'' @ [CHR 0x22] @ '' is invalid''"
  using assertIsNpmSnapPackageJson_eq [of validSemver getErrorMessage v st]
  by (auto simp: isNpmSnapPackageJson_eq verdict_def)

text \<open>
  Claim C5 on \<^verbatim>\<open>{version: "1.2.3", name: "a"}\<close>, which is valid when every version is
  accepted, and on \<^verbatim>\<open>null\<close>, which is not.
\<close>

theorem assertIsNpmSnapPackageJson_result_witness:
  "fst (isNpmSnapPackageJson Some
     (JObject [(''version'', JString ''1.2.3''), (''name'', JString ''a'')]) 0) = Inr True \<and>
   assertIsNpmSnapPackageJson Some (\<lambda>f. ''Expected an object'')
     (JObject [(''version'', JString ''1.2.3''), (''name'', JString ''a'')]) 0 = (Inr (), 0) \<and>
   fst (isNpmSnapPackageJson Some JNull 0) \<noteq> Inr True \<and>
   (\<exists>detail. assertIsNpmSnapPackageJson Some (\<lambda>f. ''Expected an object'') JNull 0 =
      (Inl (AssertionError
         (CHR 0x22 # NpmSnapFileNames_value PackageJson @ CHR 0x22 # '' is invalid'' @ detail)), 0))"
proof -
  have a: "fst (isNpmSnapPackageJson Some
     (JObject [(''version'', JString ''1.2.3''), (''name'', JString ''a'')]) 0) = Inr True"
    by (simp add: isNpmSnapPackageJson_eq metadata_defs name_defs)
  have b: "fst (isNpmSnapPackageJson Some JNull 0) \<noteq> Inr True"
    by (simp add: isNpmSnapPackageJson_eq metadata_defs)
  from a b
    assertIsNpmSnapPackageJson_result [of Some
      "JObject [(''version'', JString ''1.2.3''), (''name'', JString ''a'')]" 0
      "\<lambda>f. ''Expected an object''"]
    assertIsNpmSnapPackageJson_result [of Some JNull 0 "\<lambda>f. ''Expected an object''"]
  show ?thesis by blast
qed

text \<open>
  Claim C10 says that the assertion fails if and only if the predicate returns false. On
  the value \<^verbatim>\<open>{"version": {"toString": 1}, "name": "a"}\<close> the assertion fails, with an
  assertion error under the prefix \<^verbatim>\<open>"package.json" is invalid\<close>, and the predicate does
  not return false: validation raises a \<^verbatim>\<open>TypeError\<close> while the failure of \<^verbatim>\<open>version\<close> is
  built, \<^verbatim>\<open>assertStruct\<close> catches it and rethrows it, and \<^verbatim>\<open>is\<close> lets it through.
\<close>

theorem assertion_fails_where_predicate_raises:
  "isNpmSnapPackageJson validSemver
     (JObject [(''version'', JObject [(''toString'', JNumber 1)]), (''name'', JString ''a'')]) st =
     (Inl TypeError, st) \<and>
   (\<exists>caught. assertIsNpmSnapPackageJson validSemver getErrorMessage
      (JObject [(''version'', JObject [(''toString'', JNumber 1)]), (''name'', JString ''a'')]) st =
      (Inl (AssertionError
         (CHR 0x22 # ''package.json'' @ CHR 0x22 # '' is invalid: '' @ getErrorMessage caught @ ''.'')),
       st))"
  using assertIsNpmSnapPackageJson_eq [of validSemver getErrorMessage
      "JObject [(''version'', JObject [(''toString'', JNumber 1)]), (''name'', JString ''a'')]" st]
  by (simp add: isNpmSnapPackageJson_eq metadata_defs)


subsection \<open>Totality and determinism of the predicates\<close>

text \<open>
  Claim C6 says that the predicates never raise and return false on every malformed value.
  With the versions of the semver grammar, the parsed JSON
  \<^verbatim>\<open>{"version": "1.2.3", "name": {"toString": 1}}\<close> makes \<^verbatim>\<open>isNpmSnapPackageJson\<close> raise a
  \<^verbatim>\<open>TypeError\<close>: the name is not a string, \<^verbatim>\<open>string()\<close> builds its message with
  \<^verbatim>\<open>print(value)\<close>, and the conversion of the name to a string raises. So it is for
  whatever \<^verbatim>\<open>semver\<close> answers, as soon as the version \<^verbatim>\<open>1.2.3\<close> is accepted. The same
  happens, whatever \<^verbatim>\<open>semver\<close> answers, when the version is such an object, and in the
  name check on its own.
\<close>

theorem predicate_raises_on_unprintable_field:
  "isNpmSnapPackageJson semver_valid
     (JObject [(''version'', JString ''1.2.3''),
               (''name'', JObject [(''toString'', JNumber 1)])]) st = (Inl TypeError, st) \<and>
   isNpmSnapPackageJson validSemver
     (JObject [(''version'', JString ''1.2.3''),
               (''name'', JObject [(''toString'', JNumber 1)])]) st =
     ((if validSemver ''1.2.3'' = None then Inr False else Inl TypeError), st) \<and>
   isNpmSnapPackageJson validSemver
     (JObject [(''version'', JObject [(''toString'', JNumber 1)]), (''name'', JString ''a'')]) st =
     (Inl TypeError, st) \<and>
   is_struct (JObject [(''toString'', JNumber 1)]) NameStruct st = (Inl TypeError, st)"
  by (simp add: isNpmSnapPackageJson_eq is_struct_NameStruct metadata_defs name_pred_def
      semver_defs)

text \<open>
  The only mutable state the checks can reach is the \<^verbatim>\<open>lastIndex\<close> of the expression in
  \<^verbatim>\<open>NameStruct\<close>. With the \<^verbatim>\<open>g\<close> flag the same expression would answer differently on a
  second call.
\<close>

lemma global_flag_is_stateful:
  "RegExp_test (NameRegExp\<lparr>global := True\<rparr>) ''abc'' 0 = (True, 3) \<and>
   RegExp_test (NameRegExp\<lparr>global := True\<rparr>) ''abc'' 3 = (False, 0)"
  by (simp add: RegExp_test_def NameRegExp_def search.simps in_class_def)

text \<open>
  Claim C7. Every predicate of the module is deterministic: a second call on the same
  value, made in the state the first call left, returns the same result; the calls leave
  \<^verbatim>\<open>lastIndex\<close> as it was, and the result does not depend on it.
\<close>

theorem predicates_are_deterministic:
  "(case isNpmSnapPackageJson validSemver v st of
      (r1, st1) \<Rightarrow>
        (case isNpmSnapPackageJson validSemver v st1 of
           (r2, st2) \<Rightarrow> r1 = r2 \<and> st1 = st \<and> st2 = st)) \<and>
   (case is_struct v (VersionStruct validSemver) st of
      (r1, st1) \<Rightarrow>
        (case is_struct v (VersionStruct validSemver) st1 of
           (r2, st2) \<Rightarrow> r1 = r2 \<and> st1 = st \<and> st2 = st)) \<and>
   (case is_struct v NameStruct st of
      (r1, st1) \<Rightarrow>
        (case is_struct v NameStruct st1 of
           (r2, st2) \<Rightarrow> r1 = r2 \<and> st1 = st \<and> st2 = st)) \<and>
   fst (isNpmSnapPackageJson validSemver v st) = fst (isNpmSnapPackageJson validSemver v st') \<and>
   fst (is_struct v (VersionStruct validSemver) st) =
     fst (is_struct v (VersionStruct validSemver) st') \<and>
   fst (is_struct v NameStruct st) = fst (is_struct v NameStruct st')"
  by (simp add: is_struct_VersionStruct is_struct_NameStruct isNpmSnapPackageJson_eq)

end
